theory Spec2Isabelle
  imports Main
begin

section \<open>The tool server of datax-mcp-server (src/server.py)\<close>

text \<open>
  The server registers six independent tools. Each tool is a Python function that calls
  pandas, pyarrow, matplotlib or the operating system and prints to standard output.
  The embedding keeps the control flow of each function as it is written: every
  \<^verbatim>\<open>try\<close>/\<^verbatim>\<open>except\<close>, every \<^verbatim>\<open>isinstance\<close> test, every rebinding of a
  local variable and every \<^verbatim>\<open>print\<close>. A tool returns a pair: the outcome
  (\<open>Inl\<close> an exception that reaches the caller, \<open>Inr\<close> the returned value) and the
  world after the call.

  pandas, pyarrow and matplotlib are not part of the repository. Their entry points are
  fields of a record \<open>lib\<close> that every tool takes as its first argument, so a theorem
  about a tool holds for every behaviour of the libraries.
\<close>

subsection \<open>Python values\<close>

datatype cell = CInt int | CStr string | CNull

type_synonym column = "string \<times> cell list"

text \<open>
  A pyarrow table is an ordered list of named columns. A pandas frame has, besides its
  columns, an index of row labels: the default \<^verbatim>\<open>RangeIndex\<close> of a given length, or a
  list of integer labels.
\<close>

datatype table = Table (tcols: "column list")

datatype pdindex = RangeIndex nat | LabelIndex "int list"

datatype dataframe = DataFrame (dindex: pdindex) (dcols: "column list")

fun index_len :: "pdindex \<Rightarrow> nat" where
  "index_len (RangeIndex n) = n"
| "index_len (LabelIndex ls) = length ls"

text \<open>
  The values a tool can receive for a parameter annotated \<^verbatim>\<open>Any\<close> or \<^verbatim>\<open>dict\<close>:
  the JSON-like values of Python, a pyarrow table and a pandas frame. A dict keeps its
  insertion order, so it is an association list.
\<close>

datatype pyval =
    PyNone
  | PyBool bool
  | PyInt int
  | PyStr string
  | PyList "pyval list"
  | PyDict "(pyval \<times> pyval) list"
  | PyArrowTable table
  | PyDataFrame dataframe

text \<open>
  The exceptions of the model are all subclasses of Python's \<^verbatim>\<open>Exception\<close>, so a
  handler \<^verbatim>\<open>except Exception\<close> catches each of them. \<^verbatim>\<open>ArrowInvalid\<close> is the
  class the first handler of \<^verbatim>\<open>read_csv_with_arrow\<close> names.
\<close>

datatype pyexc =
    ArrowInvalid string
  | AttributeError string
  | TypeError string
  | ValueError string
  | OSError string
  | OtherException string

fun exc_str :: "pyexc \<Rightarrow> string" where
  "exc_str (ArrowInvalid m) = m"
| "exc_str (AttributeError m) = m"
| "exc_str (TypeError m) = m"
| "exc_str (ValueError m) = m"
| "exc_str (OSError m) = m"
| "exc_str (OtherException m) = m"

fun type_name :: "pyval \<Rightarrow> string" where
  "type_name PyNone = ''NoneType''"
| "type_name (PyBool _) = ''bool''"
| "type_name (PyInt _) = ''int''"
| "type_name (PyStr _) = ''str''"
| "type_name (PyList _) = ''list''"
| "type_name (PyDict _) = ''dict''"
| "type_name (PyArrowTable _) = ''pyarrow.lib.Table''"
| "type_name (PyDataFrame _) = ''DataFrame''"

definition no_attribute :: "pyval \<Rightarrow> string \<Rightarrow> pyexc" where
  "no_attribute v a =
     AttributeError ([CHR 0x27] @ type_name v @ [CHR 0x27] @ '' object has no attribute ''
                     @ [CHR 0x27] @ a @ [CHR 0x27])"

text \<open>
  The three \<^verbatim>\<open>isinstance\<close> tests of the source: against \<^verbatim>\<open>dict\<close>,
  \<^verbatim>\<open>pd.DataFrame\<close> and \<^verbatim>\<open>pa.Table\<close>.
\<close>

fun is_dict :: "pyval \<Rightarrow> bool" where
  "is_dict (PyDict _) = True"
| "is_dict _ = False"


definition is_arrow_table :: "pyval \<Rightarrow> bool" where
  "is_arrow_table v = (case v of PyArrowTable _ \<Rightarrow> True | _ \<Rightarrow> False)"

subsection \<open>Decimal text of integers, for the formatted prints\<close>

definition digit_char :: "nat \<Rightarrow> char" where
  "digit_char d = char_of (48 + d)"

fun str_nat :: "nat \<Rightarrow> string" where
  "str_nat n = (if n < 10 then [digit_char n] else str_nat (n div 10) @ [digit_char (n mod 10)])"

declare str_nat.simps [simp del]

definition str_int :: "int \<Rightarrow> string" where
  "str_int i = (if i < 0 then CHR ''-'' # str_nat (nat (- i)) else str_nat (nat i))"

subsection \<open>The world: standard output, file system, open figures\<close>

text \<open>
  What \<^verbatim>\<open>plt.bar\<close>, \<^verbatim>\<open>plt.title\<close>, \<^verbatim>\<open>plt.xlabel\<close> and \<^verbatim>\<open>plt.ylabel\<close>
  put on the current figure.
\<close>

record chart =
  bar_keys :: "pyval list"
  bar_values :: "pyval list"
  chart_title :: string
  chart_xlabel :: string
  chart_ylabel :: string

datatype fdata =
    CsvData table
  | ParquetData table
  | PngData chart
  | RawData string

record filesys =
  files :: "string \<rightharpoonup> fdata"
  dirs :: "string set"

record world =
  stdout :: "string list"
  fs :: filesys
  open_figs :: nat

definition put_file :: "string \<Rightarrow> fdata \<Rightarrow> world \<Rightarrow> world" where
  "put_file p d w = w\<lparr>fs := (fs w)\<lparr>files := (files (fs w))(p \<mapsto> d)\<rparr>\<rparr>"

definition print_line :: "string \<Rightarrow> world \<Rightarrow> world" where
  "print_line s w = w\<lparr>stdout := stdout w @ [s]\<rparr>"

subsection \<open>add\<close>

text \<open>
  Formatting an integer inside an f-string converts it to decimal text. CPython refuses
  the conversion, with \<^verbatim>\<open>ValueError\<close>, when the integer has more decimal digits than
  \<^verbatim>\<open>sys.int_info.default_max_str_digits\<close>, which is 4300; the sign is not counted.
  The limit is part of CPython 3.11 and later and of the security releases of the earlier
  versions; the annotations of the source need Python 3.10 or later.
\<close>

definition max_str_digits :: nat where
  "max_str_digits = 4300"

definition int_text :: "int \<Rightarrow> pyexc + string" where
  "int_text i =
     (if 10 ^ max_str_digits \<le> \<bar>i\<bar>
      then Inl (ValueError ''Exceeds the limit (4300 digits) for integer string conversion'')
      else Inr (str_int i))"

text \<open>
  \<^verbatim>\<open>def add(a: int, b: int) -> int\<close>, lines 16 to 19: the f-string of line 18 formats
  \<^verbatim>\<open>a\<close>, then \<^verbatim>\<open>b\<close>; the line is printed; \<^verbatim>\<open>a + b\<close> is returned. Python
  integers are unbounded, hence \<open>int\<close>.
\<close>

definition add :: "int \<Rightarrow> int \<Rightarrow> world \<Rightarrow> (pyexc + int) \<times> world" where
  "add a b w =
     (case int_text a of
        Inl e \<Rightarrow> (Inl e, w)
      | Inr sa \<Rightarrow>
          (case int_text b of
             Inl e \<Rightarrow> (Inl e, w)
           | Inr sb \<Rightarrow>
               (Inr (a + b),
                print_line (''[debug-server] add('' @ sa @ '', '' @ sb @ '')'') w)))"

subsection \<open>String helpers of the Python standard library\<close>

text \<open>
  \<^verbatim>\<open>s.rsplit('.', 1)[0]\<close>: the text before the last dot of \<open>s\<close>, and all of \<open>s\<close>
  when it holds no dot.
\<close>

definition rsplit_dot_head :: "string \<Rightarrow> string" where
  "rsplit_dot_head s =
     (if CHR ''.'' \<in> set s
      then rev (tl (dropWhile (\<lambda>c. c \<noteq> CHR ''.'') (rev s)))
      else s)"

text \<open>
  \<^verbatim>\<open>os.path.dirname\<close> of posixpath: the text up to and including the last slash, with
  its trailing slashes removed unless it holds nothing but slashes.
\<close>

definition rstrip_slash :: "string \<Rightarrow> string" where
  "rstrip_slash s = rev (dropWhile (\<lambda>c. c = CHR ''/'') (rev s))"

definition dirname :: "string \<Rightarrow> string" where
  "dirname p =
     (let head = rev (dropWhile (\<lambda>c. c \<noteq> CHR ''/'') (rev p))
      in if head \<noteq> [] \<and> head \<noteq> replicate (length head) (CHR ''/'')
         then rstrip_slash head else head)"

subsection \<open>The libraries\<close>

text \<open>
  Each field stands for one library entry point. A call that computes a value returns
  \<open>Inl\<close> the exception it raises or \<open>Inr\<close> its value. A call that only writes returns
  the exception it raises, if any; when it raises none, the tool records the write in
  the world.
  \<^item> \<open>read_csv\<close>: \<^verbatim>\<open>pyarrow.csv.read_csv(file_path)\<close>;
  \<^item> \<open>head_text\<close>: the text of \<^verbatim>\<open>table.to_pandas().head()\<close>;
  \<^item> \<open>write_table_exc\<close>: \<^verbatim>\<open>pyarrow.parquet.write_table(table, path)\<close>;
  \<^item> \<open>write_csv_exc\<close>: \<^verbatim>\<open>pyarrow.csv.write_csv(table, path)\<close>;
  \<^item> \<open>pd_DataFrame\<close>: \<^verbatim>\<open>pd.DataFrame(d)\<close> on a dict;
  \<^item> \<open>from_pandas\<close>: \<^verbatim>\<open>pa.Table.from_pandas(df)\<close>;
  \<^item> \<open>to_pandas\<close>: \<^verbatim>\<open>table.to_pandas()\<close>;
  \<^item> \<open>df_eval\<close>: \<^verbatim>\<open>df.eval(expr)\<close>, the value of the expression on the frame: a
    boolean mask with one truth value per row, or a value that is no mask;
  \<^item> \<open>loc_index\<close>: the index of \<^verbatim>\<open>df.loc[mask]\<close>;
  \<^item> \<open>df_loc_other\<close>: \<^verbatim>\<open>df.loc[res]\<close> for a value \<open>res\<close> that is no mask;
  \<^item> \<open>df_attr_text\<close>: the formatted value of an attribute of a frame that is not
    one of its methods (pandas looks it up among the column names and raises
    \<^verbatim>\<open>AttributeError\<close> when there is no such column);
  \<^item> \<open>plt_bar_exc\<close>: \<^verbatim>\<open>plt.bar(keys, values, ...)\<close>;
  \<^item> \<open>makedirs_exc\<close>: \<^verbatim>\<open>os.makedirs(dir_name)\<close>;
  \<^item> \<open>savefig_exc\<close>: \<^verbatim>\<open>plt.savefig(save_path, format='png')\<close>.
\<close>

datatype evalres = Mask "bool list" | NotMask

record lib =
  read_csv :: "filesys \<Rightarrow> string \<Rightarrow> pyexc + table"
  head_text :: "table \<Rightarrow> pyexc + string"
  write_table_exc :: "filesys \<Rightarrow> table \<Rightarrow> string \<Rightarrow> pyexc option"
  write_csv_exc :: "filesys \<Rightarrow> table \<Rightarrow> string \<Rightarrow> pyexc option"
  pd_DataFrame :: "(pyval \<times> pyval) list \<Rightarrow> pyexc + dataframe"
  from_pandas :: "dataframe \<Rightarrow> pyexc + table"
  to_pandas :: "table \<Rightarrow> pyexc + dataframe"
  df_eval :: "dataframe \<Rightarrow> string \<Rightarrow> pyexc + evalres"
  loc_index :: "pdindex \<Rightarrow> bool list \<Rightarrow> pdindex"
  df_loc_other :: "dataframe \<Rightarrow> string \<Rightarrow> pyexc + dataframe"
  df_attr_text :: "dataframe \<Rightarrow> string \<Rightarrow> pyexc + string"
  plt_bar_exc :: "pyval list \<Rightarrow> pyval list \<Rightarrow> pyexc option"
  makedirs_exc :: "filesys \<Rightarrow> string \<Rightarrow> pyexc option"
  savefig_exc :: "filesys \<Rightarrow> string \<Rightarrow> pyexc option"

text \<open>
  \<^verbatim>\<open>df.query(expr)\<close> is \<^verbatim>\<open>df.loc[df.eval(expr)]\<close>. For a boolean mask, \<^verbatim>\<open>loc\<close>
  keeps, in every column, the cells of the rows at which the mask is true, in their order;
  a mask that has not one truth value per row is refused.
\<close>

definition keep_mask :: "bool list \<Rightarrow> column list \<Rightarrow> column list" where
  "keep_mask m cols = map (\<lambda>c. (fst c, map snd (filter fst (zip m (snd c))))) cols"

definition df_query :: "lib \<Rightarrow> dataframe \<Rightarrow> string \<Rightarrow> pyexc + dataframe" where
  "df_query L df expr =
     (case df_eval L df expr of
        Inl e \<Rightarrow> Inl e
      | Inr NotMask \<Rightarrow> df_loc_other L df expr
      | Inr (Mask m) \<Rightarrow>
          if length m = index_len (dindex df)
          then Inr (DataFrame (loc_index L (dindex df) m) (keep_mask m (dcols df)))
          else Inl (OtherException ''Unalignable boolean Series provided as indexer''))"

subsection \<open>read\_csv\_with\_arrow\<close>

text \<open>
  Lines 60 to 65: the Parquet path is the argument when it is given, and otherwise
  \<^verbatim>\<open>file_path.rsplit('.', 1)[0] + '.parquet'\<close>.
\<close>

definition default_parquet_path :: "string \<Rightarrow> string" where
  "default_parquet_path file_path = rsplit_dot_head file_path @ ''.parquet''"

definition parquet_target :: "string \<Rightarrow> string option \<Rightarrow> string" where
  "parquet_target file_path parquet_path =
     (case parquet_path of None \<Rightarrow> default_parquet_path file_path | Some p \<Rightarrow> p)"

text \<open>The body of the \<^verbatim>\<open>try\<close> block, lines 52 to 67.\<close>

definition show_head :: "lib \<Rightarrow> table \<Rightarrow> world \<Rightarrow> (pyexc + unit) \<times> world" where
  "show_head L t w =
     (let w1 = print_line ''CSV Data (First 5 rows):'' w
      in case head_text L t of
           Inl e \<Rightarrow> (Inl e, w1)
         | Inr s \<Rightarrow> (Inr (), print_line s w1))"

definition convert_to_parquet ::
  "lib \<Rightarrow> table \<Rightarrow> string \<Rightarrow> string option \<Rightarrow> world \<Rightarrow> (pyexc + unit) \<times> world" where
  "convert_to_parquet L t file_path parquet_path w =
     (let p = parquet_target file_path parquet_path
      in case write_table_exc L (fs w) t p of
           Some e \<Rightarrow> (Inl e, w)
         | None \<Rightarrow>
             (Inr (),
              print_line (''CSV data converted and saved to Parquet: '' @ p)
                (put_file p (ParquetData t) w)))"

definition read_body ::
  "lib \<Rightarrow> string \<Rightarrow> bool \<Rightarrow> bool \<Rightarrow> string option \<Rightarrow> world \<Rightarrow> (pyexc + table) \<times> world" where
  "read_body L file_path display_data to_parquet parquet_path w =
     (case read_csv L (fs w) file_path of
        Inl e \<Rightarrow> (Inl e, w)
      | Inr t \<Rightarrow>
          (case (if display_data then show_head L t w else (Inr (), w)) of
             (Inl e, w1) \<Rightarrow> (Inl e, w1)
           | (Inr _, w1) \<Rightarrow>
               (case (if to_parquet then convert_to_parquet L t file_path parquet_path w1
                      else (Inr (), w1)) of
                  (Inl e, w2) \<Rightarrow> (Inl e, w2)
                | (Inr _, w2) \<Rightarrow> (Inr t, w2))))"

text \<open>
  The two handlers, lines 69 to 74: \<^verbatim>\<open>ArrowInvalid\<close> first, then every other
  \<^verbatim>\<open>Exception\<close>; both print and return \<^verbatim>\<open>None\<close>.
\<close>

fun read_handler :: "pyexc \<Rightarrow> world \<Rightarrow> (pyexc + table option) \<times> world" where
  "read_handler (ArrowInvalid m) w =
     (Inr None, print_line (''Error reading CSV file: '' @ m) w)"
| "read_handler e w =
     (Inr None, print_line (''An unexpected error occurred: '' @ exc_str e) w)"

text \<open>The line the handler prints for an exception.\<close>

fun read_error_line :: "pyexc \<Rightarrow> string" where
  "read_error_line (ArrowInvalid m) = ''Error reading CSV file: '' @ m"
| "read_error_line e = ''An unexpected error occurred: '' @ exc_str e"

definition read_csv_with_arrow ::
  "lib \<Rightarrow> string \<Rightarrow> bool \<Rightarrow> bool \<Rightarrow> string option \<Rightarrow> world
     \<Rightarrow> (pyexc + table option) \<times> world" where
  "read_csv_with_arrow L file_path display_data to_parquet parquet_path w =
     (case read_body L file_path display_data to_parquet parquet_path w of
        (Inr t, w') \<Rightarrow> (Inr (Some t), w')
      | (Inl e, w') \<Rightarrow> read_handler e w')"

subsection \<open>Conversions shared by the filter and the CSV writer\<close>

text \<open>
  \<^verbatim>\<open>pa.Table.from_pandas(df)\<close> and \<^verbatim>\<open>pa.Table.from_pandas(pd.DataFrame(d))\<close>, as
  Python values.
\<close>

definition table_of_frame :: "lib \<Rightarrow> dataframe \<Rightarrow> pyexc + pyval" where
  "table_of_frame L df =
     (case from_pandas L df of Inl e \<Rightarrow> Inl e | Inr t \<Rightarrow> Inr (PyArrowTable t))"

definition table_of_dict :: "lib \<Rightarrow> (pyval \<times> pyval) list \<Rightarrow> pyexc + pyval" where
  "table_of_dict L d =
     (case pd_DataFrame L d of Inl e \<Rightarrow> Inl e | Inr df \<Rightarrow> table_of_frame L df)"

subsection \<open>The columns and cells of a value\<close>

text \<open>
  What a value holds as a table: the columns of a pyarrow table or of a frame, and, for a
  mapping from column names to lists of integers, strings and \<^verbatim>\<open>None\<close>, one column
  per key with one cell per list element. Other values hold no table.
\<close>

fun scalar_cell :: "pyval \<Rightarrow> cell option" where
  "scalar_cell (PyInt i) = Some (CInt i)"
| "scalar_cell (PyStr s) = Some (CStr s)"
| "scalar_cell PyNone = Some CNull"
| "scalar_cell _ = None"

fun list_cells :: "pyval list \<Rightarrow> cell list option" where
  "list_cells [] = Some []"
| "list_cells (v # vs) =
     (case scalar_cell v of
        None \<Rightarrow> None
      | Some c \<Rightarrow> (case list_cells vs of None \<Rightarrow> None | Some cs \<Rightarrow> Some (c # cs)))"

fun dict_columns :: "(pyval \<times> pyval) list \<Rightarrow> column list option" where
  "dict_columns [] = Some []"
| "dict_columns ((PyStr k, PyList vs) # kvs) =
     (case list_cells vs of
        None \<Rightarrow> None
      | Some cs \<Rightarrow>
          (case dict_columns kvs of None \<Rightarrow> None | Some cols \<Rightarrow> Some ((k, cs) # cols)))"
| "dict_columns _ = None"


subsection \<open>filter\_arrow\_table\_by\_expr\<close>

text \<open>
  Lines 92 to 97: a dict and a pandas frame are converted and the local variable
  \<^verbatim>\<open>table\<close> is rebound to the result; every other value is left as it is. The
  result is the new binding of \<^verbatim>\<open>table\<close>, or the exception of the conversion, in
  which case \<^verbatim>\<open>table\<close> is still bound to the argument.
\<close>

definition filter_normalize :: "lib \<Rightarrow> pyval \<Rightarrow> world \<Rightarrow> (pyexc + pyval) \<times> world" where
  "filter_normalize L table w =
     (case table of
        PyDict d \<Rightarrow>
          (table_of_dict L d, print_line ''Received dict, converting to pyarrow.Table...'' w)
      | PyDataFrame df \<Rightarrow> (table_of_frame L df, w)
      | _ \<Rightarrow> (Inr table, w))"

text \<open>
  \<^verbatim>\<open>table.to_pandas()\<close>: only a pyarrow table has the method; on any other value
  the attribute lookup raises \<^verbatim>\<open>AttributeError\<close>.
\<close>

definition py_to_pandas :: "lib \<Rightarrow> pyval \<Rightarrow> pyexc + dataframe" where
  "py_to_pandas L v =
     (case v of
        PyArrowTable t \<Rightarrow> to_pandas L t
      | _ \<Rightarrow> Inl (no_attribute v ''to_pandas''))"

text \<open>Lines 100 to 106: to pandas, \<^verbatim>\<open>query\<close>, back to pyarrow.\<close>

definition filter_query :: "lib \<Rightarrow> pyval \<Rightarrow> string \<Rightarrow> pyexc + pyval" where
  "filter_query L table filter_expr =
     (case py_to_pandas L table of
        Inl e \<Rightarrow> Inl e
      | Inr df \<Rightarrow>
          (case df_query L df filter_expr of
             Inl e \<Rightarrow> Inl e
           | Inr filtered_df \<Rightarrow> table_of_frame L filtered_df))"

definition filter_error_line :: "string \<Rightarrow> pyexc \<Rightarrow> string" where
  "filter_error_line filter_expr e =
     ''Error in filtering with expression '' @ [CHR 0x27] @ filter_expr @ [CHR 0x27]
       @ '': '' @ exc_str e"

text \<open>
  The whole function: the handler of lines 107 to 109 prints and returns whatever the
  variable \<^verbatim>\<open>table\<close> is bound to when the exception is raised.
\<close>

definition filter_arrow_table_by_expr ::
  "lib \<Rightarrow> pyval \<Rightarrow> string \<Rightarrow> world \<Rightarrow> (pyexc + pyval) \<times> world" where
  "filter_arrow_table_by_expr L table filter_expr w =
     (case filter_normalize L table w of
        (Inl e, w1) \<Rightarrow> (Inr table, print_line (filter_error_line filter_expr e) w1)
      | (Inr table', w1) \<Rightarrow>
          (case filter_query L table' filter_expr of
             Inl e \<Rightarrow> (Inr table', print_line (filter_error_line filter_expr e) w1)
           | Inr result \<Rightarrow> (Inr result, w1)))"

subsection \<open>plot\_dict\_and\_save\<close>

definition path_exists :: "world \<Rightarrow> string \<Rightarrow> bool" where
  "path_exists w p = (p \<in> dirs (fs w) \<or> p \<in> dom (files (fs w)))"

text \<open>
  The directories \<^verbatim>\<open>os.makedirs(d)\<close> leaves behind: \<open>d\<close> and each prefix of \<open>d\<close>
  that ends before a slash.
\<close>

definition made_dirs :: "string \<Rightarrow> string set" where
  "made_dirs d =
     set (map (\<lambda>n. take n d)
            (filter (\<lambda>n. n = length d \<or> d ! n = CHR ''/'') [1..<Suc (length d)]))"

text \<open>Lines 144 to 146.\<close>

definition ensure_dir :: "lib \<Rightarrow> string \<Rightarrow> world \<Rightarrow> (pyexc + unit) \<times> world" where
  "ensure_dir L save_path w =
     (let dir_name = dirname save_path
      in if dir_name \<noteq> [] \<and> \<not> path_exists w dir_name
         then (case makedirs_exc L (fs w) dir_name of
                 Some e \<Rightarrow> (Inl e, w)
               | None \<Rightarrow>
                   (Inr (), w\<lparr>fs := (fs w)\<lparr>dirs := dirs (fs w) \<union> made_dirs dir_name\<rparr>\<rparr>))
         else (Inr (), w))"

text \<open>
  Lines 127 to 151. The messages of lines 128 and 151 are Chinese in the source and are
  given here in English. \<^verbatim>\<open>plt.figure\<close> opens a figure and \<^verbatim>\<open>plt.close\<close> closes
  it; \<^verbatim>\<open>plt.title\<close>, \<^verbatim>\<open>plt.xlabel\<close>, \<^verbatim>\<open>plt.ylabel\<close>, \<^verbatim>\<open>plt.grid\<close> and
  \<^verbatim>\<open>plt.tight_layout\<close> only change the open figure. \<^verbatim>\<open>save_path\<close> defaults to
  \<^verbatim>\<open>None\<close>, on which \<^verbatim>\<open>os.path.dirname\<close> raises \<^verbatim>\<open>TypeError\<close>.
\<close>

definition plot_dict_and_save ::
  "lib \<Rightarrow> pyval \<Rightarrow> string \<Rightarrow> string \<Rightarrow> string \<Rightarrow> string option \<Rightarrow> world
     \<Rightarrow> (pyexc + unit) \<times> world" where
  "plot_dict_and_save L data title xlabel ylabel save_path w =
     (case data of
        PyDict kvs \<Rightarrow>
          (let keys = map fst kvs;
               vals = map snd kvs;
               w1 = w\<lparr>open_figs := open_figs w + 1\<rparr>
           in case plt_bar_exc L keys vals of
                Some e \<Rightarrow> (Inl e, w1)
              | None \<Rightarrow>
                  (case save_path of
                     None \<Rightarrow>
                       (Inl (TypeError
                          ''expected str, bytes or os.PathLike object, not NoneType''), w1)
                   | Some p \<Rightarrow>
                       (case ensure_dir L p w1 of
                          (Inl e, w2) \<Rightarrow> (Inl e, w2)
                        | (Inr _, w2) \<Rightarrow>
                            (case savefig_exc L (fs w2) p of
                               Some e \<Rightarrow> (Inl e, w2)
                             | None \<Rightarrow>
                                 (let fig = \<lparr>bar_keys = keys, bar_values = vals,
                                            chart_title = title, chart_xlabel = xlabel,
                                            chart_ylabel = ylabel\<rparr>;
                                      w3 = put_file p (PngData fig) w2;
                                      w4 = w3\<lparr>open_figs := open_figs w3 - 1\<rparr>
                                  in (Inr (), print_line (''Image saved as: '' @ p) w4))))))
      | _ \<Rightarrow> (Inl (ValueError ''input data must be of type dict''), w))"

subsection \<open>write\_table\_to\_csv\<close>

definition num_rows :: "table \<Rightarrow> nat" where
  "num_rows t = (case tcols t of [] \<Rightarrow> 0 | c # _ \<Rightarrow> length (snd c))"

definition num_columns :: "table \<Rightarrow> nat" where
  "num_columns t = length (tcols t)"

text \<open>
  The two attribute reads inside the formatted string of line 166. A pyarrow table has
  both attributes. A frame has neither as an attribute of its own, so pandas decides. A
  dict, a list and every other value raise \<^verbatim>\<open>AttributeError\<close>.
\<close>

definition num_rows_text :: "lib \<Rightarrow> pyval \<Rightarrow> pyexc + string" where
  "num_rows_text L v =
     (case v of
        PyArrowTable t \<Rightarrow> Inr (str_nat (num_rows t))
      | PyDataFrame df \<Rightarrow> df_attr_text L df ''num_rows''
      | _ \<Rightarrow> Inl (no_attribute v ''num_rows''))"

definition num_columns_text :: "lib \<Rightarrow> pyval \<Rightarrow> pyexc + string" where
  "num_columns_text L v =
     (case v of
        PyArrowTable t \<Rightarrow> Inr (str_nat (num_columns t))
      | PyDataFrame df \<Rightarrow> df_attr_text L df ''num_columns''
      | _ \<Rightarrow> Inl (no_attribute v ''num_columns''))"

text \<open>Line 166, which stands before the \<^verbatim>\<open>try\<close>.\<close>

definition write_banner :: "lib \<Rightarrow> pyval \<Rightarrow> world \<Rightarrow> (pyexc + unit) \<times> world" where
  "write_banner L table w =
     (case num_rows_text L table of
        Inl e \<Rightarrow> (Inl e, w)
      | Inr r \<Rightarrow>
          (case num_columns_text L table of
             Inl e \<Rightarrow> (Inl e, w)
           | Inr c \<Rightarrow>
               (Inr (),
                print_line (''Read table with '' @ r @ '' rows and '' @ c @ '' columns.'') w)))"

text \<open>Lines 169 to 172.\<close>

definition write_normalize :: "lib \<Rightarrow> pyval \<Rightarrow> pyexc + pyval" where
  "write_normalize L table =
     (case table of
        PyDict d \<Rightarrow> table_of_dict L d
      | PyDataFrame df \<Rightarrow> table_of_frame L df
      | _ \<Rightarrow> Inr table)"

text \<open>The body of the \<^verbatim>\<open>try\<close> block, lines 168 to 179.\<close>

definition write_body :: "lib \<Rightarrow> pyval \<Rightarrow> string \<Rightarrow> world \<Rightarrow> (pyexc + bool) \<times> world" where
  "write_body L table output_path w =
     (case write_normalize L table of
        Inl e \<Rightarrow> (Inl e, w)
      | Inr table' \<Rightarrow>
          (case table' of
             PyArrowTable t \<Rightarrow>
               (case write_csv_exc L (fs w) t output_path of
                  Some e \<Rightarrow> (Inl e, w)
                | None \<Rightarrow>
                    (Inr True,
                     print_line (''Table successfully written to CSV: '' @ output_path)
                       (put_file output_path (CsvData t) w)))
           | _ \<Rightarrow> (Inl (TypeError ''Provided data is not a valid pyarrow.Table''), w)))"

definition write_table_to_csv ::
  "lib \<Rightarrow> pyval \<Rightarrow> string \<Rightarrow> world \<Rightarrow> (pyexc + bool) \<times> world" where
  "write_table_to_csv L table output_path w =
     (case write_banner L table w of
        (Inl e, w1) \<Rightarrow> (Inl e, w1)
      | (Inr _, w1) \<Rightarrow>
          (case write_body L table output_path w1 of
             (Inl e, w2) \<Rightarrow>
               (Inr False, print_line (''Failed to write table to CSV: '' @ exc_str e) w2)
           | (Inr b, w2) \<Rightarrow> (Inr b, w2)))"

section \<open>One behaviour of the libraries, for concrete runs\<close>

text \<open>
  The theorems below hold for every \<open>lib\<close>. To run a tool on a concrete input, the
  libraries need one concrete behaviour; \<open>sample_lib\<close> is a small one, meant for the
  runs of this file only. It supports less than the libraries do:
  \<^item> a frame is built from a mapping of column names to equally long lists that hold
    integers only or strings only, with the default index; every other mapping is
    refused, also where pandas would accept it;
  \<^item> a table becomes a frame with the same columns and the default index; a frame
    becomes a table with the same columns, followed by the column
    \<^verbatim>\<open>__index_level_0__\<close> of its labels when its index is not the default one;
  \<^item> \<^verbatim>\<open>loc\<close> with a mask leaves a list of the labels kept;
  \<^item> the expressions \<^verbatim>\<open>a > 1\<close> and \<^verbatim>\<open>a > 5\<close> are evaluated on the column named
    \<^verbatim>\<open>a\<close>; every other expression is refused as a malformed one is, also where
    pandas would accept it;
  \<^item> the CSV reader returns the table stored at the path; the writers need a path
    that is not empty and whose parent directory exists.
\<close>

definition homogeneous :: "cell list \<Rightarrow> bool" where
  "homogeneous cs =
     (list_all (\<lambda>c. case c of CInt _ \<Rightarrow> True | _ \<Rightarrow> False) cs \<or>
      list_all (\<lambda>c. case c of CStr _ \<Rightarrow> True | _ \<Rightarrow> False) cs)"

definition sample_frame :: "(pyval \<times> pyval) list \<Rightarrow> pyexc + dataframe" where
  "sample_frame d =
     (case dict_columns d of
        None \<Rightarrow> Inl (ValueError ''mapping not supported'')
      | Some cols \<Rightarrow>
          (let n = (case cols of [] \<Rightarrow> 0 | c # _ \<Rightarrow> length (snd c))
           in if list_all (\<lambda>c. length (snd c) = n) cols
              then (if list_all (\<lambda>c. homogeneous (snd c)) cols
                    then Inr (DataFrame (RangeIndex n) cols)
                    else Inl (ValueError ''mapping not supported''))
              else Inl (ValueError ''All arrays must be of the same length'')))"

fun index_labels :: "pdindex \<Rightarrow> int list" where
  "index_labels (RangeIndex n) = map int [0..<n]"
| "index_labels (LabelIndex ls) = ls"

fun index_columns :: "pdindex \<Rightarrow> column list" where
  "index_columns (RangeIndex n) = []"
| "index_columns (LabelIndex ls) = [(''__index_level_0__'', map CInt ls)]"

definition sample_loc_index :: "pdindex \<Rightarrow> bool list \<Rightarrow> pdindex" where
  "sample_loc_index idx m = LabelIndex (map snd (filter fst (zip m (index_labels idx))))"

definition sample_eval ::
  "(string \<times> string \<times> int) list \<Rightarrow> dataframe \<Rightarrow> string \<Rightarrow> pyexc + evalres" where
  "sample_eval known df e =
     (case map_of known e of
        None \<Rightarrow> Inl (OtherException ''invalid syntax'')
      | Some (c, k) \<Rightarrow>
          (case map_of (dcols df) c of
             None \<Rightarrow> Inl (OtherException (''name '' @ c @ '' is not defined''))
           | Some cells \<Rightarrow>
               if list_all (\<lambda>x. case x of CInt _ \<Rightarrow> True | _ \<Rightarrow> False) cells
               then Inr (Mask (map (\<lambda>x. case x of CInt v \<Rightarrow> k < v | _ \<Rightarrow> False) cells))
               else Inl (TypeError ''comparison not supported between str and int'')))"

definition sample_attr_text :: "dataframe \<Rightarrow> string \<Rightarrow> pyexc + string" where
  "sample_attr_text df a =
     (case map_of (dcols df) a of
        None \<Rightarrow> Inl (no_attribute (PyDataFrame df) a)
      | Some cells \<Rightarrow> Inr (''Name: '' @ a))"

definition sample_read_csv :: "filesys \<Rightarrow> string \<Rightarrow> pyexc + table" where
  "sample_read_csv f p =
     (case files f p of
        None \<Rightarrow> Inl (OSError ''Failed to open local file'')
      | Some (CsvData t) \<Rightarrow> Inr t
      | Some _ \<Rightarrow> Inl (ArrowInvalid ''CSV parse error''))"

definition sample_write_exc :: "filesys \<Rightarrow> string \<Rightarrow> pyexc option" where
  "sample_write_exc f p =
     (if p = [] then Some (OSError ''No such file or directory'')
      else if dirname p = [] \<or> dirname p \<in> dirs f then None
      else Some (OSError ''No such file or directory''))"

definition sample_lib :: lib where
  "sample_lib =
     \<lparr>read_csv = sample_read_csv,
      head_text = (\<lambda>t. Inr (concat (map (\<lambda>c. fst c @ '' '') (tcols t)))),
      write_table_exc = (\<lambda>f t p. sample_write_exc f p),
      write_csv_exc = (\<lambda>f t p. sample_write_exc f p),
      pd_DataFrame = sample_frame,
      from_pandas = (\<lambda>df. Inr (Table (dcols df @ index_columns (dindex df)))),
      to_pandas = (\<lambda>t. Inr (DataFrame (RangeIndex (num_rows t)) (tcols t))),
      df_eval = sample_eval [(''a > 1'', ''a'', 1), (''a > 5'', ''a'', 5)],
      loc_index = sample_loc_index,
      df_loc_other = (\<lambda>df e. Inl (OtherException ''KeyError'')),
      df_attr_text = sample_attr_text,
      plt_bar_exc = (\<lambda>ks vs. None),
      makedirs_exc = (\<lambda>f d. None),
      savefig_exc = (\<lambda>f p. sample_write_exc f p)\<rparr>"

definition sample_table :: table where
  "sample_table = Table [(''a'', [CInt 1, CInt 2]), (''b'', [CInt 3, CInt 4])]"

definition sample_dict :: pyval where
  "sample_dict =
     PyDict [(PyStr ''a'', PyList [PyInt 1, PyInt 2]), (PyStr ''b'', PyList [PyInt 3, PyInt 4])]"

definition sample_records :: pyval where
  "sample_records =
     PyList [PyDict [(PyStr ''a'', PyInt 1), (PyStr ''b'', PyInt 3)],
             PyDict [(PyStr ''a'', PyInt 2), (PyStr ''b'', PyInt 4)]]"

definition sample_world :: world where
  "sample_world =
     \<lparr>stdout = [],
      fs = \<lparr>files = [''data.v1/input'' \<mapsto> CsvData sample_table], dirs = {''data.v1''}\<rparr>,
      open_figs = 0\<rparr>"

section \<open>Theorems\<close>

subsection \<open>Adding two integers\<close>







subsection \<open>Reading a CSV file\<close>

lemma stdout_print_line: "stdout (print_line s w) = stdout w @ [s]"
  by (simp add: print_line_def)

lemma fs_print_line: "fs (print_line s w) = fs w"
  by (simp add: print_line_def)

lemma open_figs_print_line: "open_figs (print_line s w) = open_figs w"
  by (simp add: print_line_def)

lemma read_handler_fst: "fst (read_handler e w) = Inr None"
  by (cases e) simp_all

lemma read_handler_fs: "fs (snd (read_handler e w)) = fs w"
  by (cases e) (simp_all add: fs_print_line)

lemma read_body_fst:
  "fst (read_body L fp disp tp pp w) =
     (case read_csv L (fs w) fp of
        Inl e \<Rightarrow> Inl e
      | Inr t \<Rightarrow>
          (if disp \<and> isl (head_text L t) then Inl (projl (head_text L t))
           else if tp
             then (case write_table_exc L (fs w) t (parquet_target fp pp) of
                     Some e \<Rightarrow> Inl e
                   | None \<Rightarrow> Inr t)
           else Inr t))"
  by (auto simp add: read_body_def show_head_def convert_to_parquet_def Let_def fs_print_line
        split: sum.splits prod.splits option.splits if_splits)

lemma read_outcome:
  "fst (read_csv_with_arrow L fp disp tp pp w) =
     Inr (case read_csv L (fs w) fp of
            Inl _ \<Rightarrow> None
          | Inr t \<Rightarrow>
              if (disp \<and> isl (head_text L t)) \<or>
                 (tp \<and> write_table_exc L (fs w) t (parquet_target fp pp) \<noteq> None)
              then None else Some t)"
proof -
  obtain r w' where b: "read_body L fp disp tp pp w = (r, w')"
    by (cases "read_body L fp disp tp pp w")
  have r: "r = fst (read_body L fp disp tp pp w)" using b by simp
  show ?thesis
    unfolding read_csv_with_arrow_def b
    using r unfolding read_body_fst
    by (cases r) (auto simp: read_handler_fst split: sum.splits if_splits option.splits)
qed

lemma read_handler_line: "read_handler e w = (Inr None, print_line (read_error_line e) w)"
  by (cases e) simp_all

lemma read_logs_read_error:
  assumes "read_csv L (fs w) fp = Inl e"
  shows "stdout (snd (read_csv_with_arrow L fp disp tp pp w)) = stdout w @ [read_error_line e]"
  using assms
  by (simp add: read_csv_with_arrow_def read_body_def read_handler_line stdout_print_line)

lemma read_logs_head_error:
  assumes "read_csv L (fs w) fp = Inr t" and "head_text L t = Inl e"
  shows "stdout (snd (read_csv_with_arrow L fp True tp pp w))
           = stdout w @ [''CSV Data (First 5 rows):'', read_error_line e]"
  using assms
  by (simp add: read_csv_with_arrow_def read_body_def show_head_def Let_def read_handler_line
        stdout_print_line)

lemma read_logs_write_error:
  assumes "read_csv L (fs w) fp = Inr t"
    and "disp \<longrightarrow> head_text L t = Inr s"
    and "write_table_exc L (fs w) t (parquet_target fp pp) = Some e"
  shows "stdout (snd (read_csv_with_arrow L fp disp True pp w))
           = stdout w @ (if disp then [''CSV Data (First 5 rows):'', s] else [])
               @ [read_error_line e]"
  using assms
  by (cases disp)
     (simp_all add: read_csv_with_arrow_def read_body_def show_head_def convert_to_parquet_def
        Let_def read_handler_line stdout_print_line fs_print_line)

text \<open>
  C5. For every file path and every combination of options, \<open>read_csv_with_arrow\<close>
  never raises: it returns \<open>None\<close> when reading the file, displaying the head or
  writing the Parquet file fails, and the parsed table otherwise. In each of the three
  failures the last line it prints is the line of the handler for the exception raised,
  after the lines printed before the failure.
\<close>

theorem read_csv_with_arrow_never_raises:
  "fst (read_csv_with_arrow L fp disp tp pp w) =
     Inr (case read_csv L (fs w) fp of
            Inl _ \<Rightarrow> None
          | Inr t \<Rightarrow>
              if (disp \<and> isl (head_text L t)) \<or>
                 (tp \<and> write_table_exc L (fs w) t (parquet_target fp pp) \<noteq> None)
              then None else Some t)
   \<and> (read_csv L (fs w) fp = Inl e \<longrightarrow>
        stdout (snd (read_csv_with_arrow L fp disp tp pp w)) = stdout w @ [read_error_line e])
   \<and> (read_csv L (fs w) fp = Inr t \<and> disp \<and> head_text L t = Inl e \<longrightarrow>
        stdout (snd (read_csv_with_arrow L fp disp tp pp w))
          = stdout w @ [''CSV Data (First 5 rows):'', read_error_line e])
   \<and> (read_csv L (fs w) fp = Inr t \<and> (disp \<longrightarrow> head_text L t = Inr s) \<and> tp
        \<and> write_table_exc L (fs w) t (parquet_target fp pp) = Some e \<longrightarrow>
        stdout (snd (read_csv_with_arrow L fp disp tp pp w))
          = stdout w @ (if disp then [''CSV Data (First 5 rows):'', s] else [])
              @ [read_error_line e])"
proof (intro conjI impI)
  show "fst (read_csv_with_arrow L fp disp tp pp w) =
     Inr (case read_csv L (fs w) fp of
            Inl _ \<Rightarrow> None
          | Inr t \<Rightarrow>
              if (disp \<and> isl (head_text L t)) \<or>
                 (tp \<and> write_table_exc L (fs w) t (parquet_target fp pp) \<noteq> None)
              then None else Some t)"
    by (rule read_outcome)
next
  assume "read_csv L (fs w) fp = Inl e"
  then show "stdout (snd (read_csv_with_arrow L fp disp tp pp w))
               = stdout w @ [read_error_line e]"
    by (rule read_logs_read_error)
next
  assume "read_csv L (fs w) fp = Inr t \<and> disp \<and> head_text L t = Inl e"
  then show "stdout (snd (read_csv_with_arrow L fp disp tp pp w))
          = stdout w @ [''CSV Data (First 5 rows):'', read_error_line e]"
    using read_logs_head_error [of L w fp t e tp pp] by simp
next
  assume "read_csv L (fs w) fp = Inr t \<and> (disp \<longrightarrow> head_text L t = Inr s) \<and> tp
        \<and> write_table_exc L (fs w) t (parquet_target fp pp) = Some e"
  then show "stdout (snd (read_csv_with_arrow L fp disp tp pp w))
          = stdout w @ (if disp then [''CSV Data (First 5 rows):'', s] else [])
              @ [read_error_line e]"
    using read_logs_write_error [of L w fp t disp s pp e] by simp
qed

lemma sample_read_missing:
  "read_csv sample_lib (fs sample_world) ''missing.csv'' = Inl (OSError ''Failed to open local file'')"
  by (simp add: sample_lib_def sample_world_def sample_read_csv_def)

lemma sample_read_input:
  "read_csv sample_lib (fs sample_world) ''data.v1/input'' = Inr sample_table"
  by (simp add: sample_lib_def sample_world_def sample_read_csv_def)

lemma sample_read_raw:
  "read_csv sample_lib (fs (put_file ''notes.bin'' (RawData ''x'') sample_world)) ''notes.bin''
     = Inl (ArrowInvalid ''CSV parse error'')"
  by (simp add: sample_lib_def put_file_def sample_read_csv_def)

lemma dirname_missing: "dirname ''missing/out.parquet'' = ''missing''"
  by (simp add: dirname_def rstrip_slash_def Let_def)

lemma sample_write_missing:
  "write_table_exc sample_lib (fs sample_world) t ''missing/out.parquet''
     = Some (OSError ''No such file or directory'')"
  by (simp add: sample_lib_def sample_world_def sample_write_exc_def dirname_missing)

lemma sample_head_text: "head_text sample_lib sample_table = Inr ''a b ''"
  by (simp add: sample_lib_def sample_table_def)

text \<open>
  Witness for C5: a path at which there is no file, a file that is no CSV file, and a
  CSV file whose Parquet copy cannot be written.
\<close>

theorem read_csv_with_arrow_never_raises_witness:
  "fst (read_csv_with_arrow sample_lib ''missing.csv'' True False None sample_world) = Inr None
   \<and> stdout (snd (read_csv_with_arrow sample_lib ''missing.csv'' True False None sample_world))
       = [''An unexpected error occurred: Failed to open local file'']
   \<and> stdout (snd (read_csv_with_arrow sample_lib ''notes.bin'' True False None
                     (put_file ''notes.bin'' (RawData ''x'') sample_world)))
       = [''Error reading CSV file: CSV parse error'']
   \<and> stdout (snd (read_csv_with_arrow sample_lib ''data.v1/input'' True True
                     (Some ''missing/out.parquet'') sample_world))
       = [''CSV Data (First 5 rows):'', ''a b '',
          ''An unexpected error occurred: No such file or directory'']"
proof -
  have e: "stdout sample_world = []"
    by (simp add: sample_world_def)
  have e': "stdout (put_file ''notes.bin'' (RawData ''x'') sample_world) = []"
    by (simp add: sample_world_def put_file_def)
  show ?thesis
    using read_csv_with_arrow_never_raises
            [where L = sample_lib and fp = "''missing.csv''" and disp = True and tp = False
               and pp = None and w = sample_world
               and e = "OSError ''Failed to open local file''"]
          read_csv_with_arrow_never_raises
            [where L = sample_lib and fp = "''notes.bin''" and disp = True and tp = False
               and pp = None and w = "put_file ''notes.bin'' (RawData ''x'') sample_world"
               and e = "ArrowInvalid ''CSV parse error''"]
          read_csv_with_arrow_never_raises
            [where L = sample_lib and fp = "''data.v1/input''" and disp = True and tp = True
               and pp = "Some ''missing/out.parquet''" and w = sample_world
               and t = sample_table and s = "''a b ''"
               and e = "OSError ''No such file or directory''"]
    by (simp add: sample_read_missing sample_read_raw sample_read_input sample_head_text
          sample_write_missing parquet_target_def e e')
qed

text \<open>
  C10. When the CSV file parses and the Parquet conversion is requested, a failure of
  the Parquet write makes \<open>read_csv_with_arrow\<close> return \<open>None\<close>: the parsed table
  is discarded, and the file system is left as it was.
\<close>

theorem parquet_failure_discards_table:
  assumes "read_csv L (fs w) fp = Inr t"
    and "write_table_exc L (fs w) t (parquet_target fp pp) = Some e"
  shows "fst (read_csv_with_arrow L fp disp True pp w) = Inr None
         \<and> fs (snd (read_csv_with_arrow L fp disp True pp w)) = fs w"
proof -
  obtain r w' where b: "read_body L fp disp True pp w = (r, w')"
    by (cases "read_body L fp disp True pp w")
  have "fst (read_body L fp disp True pp w) \<noteq> Inr t'" for t'
    unfolding read_body_fst using assms by (simp split: if_splits)
  with b have "r \<noteq> Inr t'" for t'
    by (metis fst_conv)
  then obtain x where r: "r = Inl x"
    by (cases r) auto
  have "fs w' = fs w"
    using b assms
    by (auto simp add: read_body_def show_head_def convert_to_parquet_def Let_def fs_print_line
          split: sum.splits prod.splits if_splits)
  then show ?thesis
    unfolding read_csv_with_arrow_def b r by (simp add: read_handler_fst read_handler_fs)
qed

text \<open>
  Witness for C10: the CSV file exists, the directory of the Parquet path does not.
\<close>

theorem parquet_failure_discards_table_witness:
  "read_csv sample_lib (fs sample_world) ''data.v1/input'' = Inr sample_table
   \<and> write_table_exc sample_lib (fs sample_world) sample_table
        (parquet_target ''data.v1/input'' (Some ''missing/out.parquet''))
       = Some (OSError ''No such file or directory'')
   \<and> fst (read_csv_with_arrow sample_lib ''data.v1/input'' True True
            (Some ''missing/out.parquet'') sample_world) = Inr None"
  using parquet_failure_discards_table [of sample_lib sample_world "''data.v1/input''" sample_table
               "Some ''missing/out.parquet''" "OSError ''No such file or directory''" True]
  by (simp add: sample_read_input sample_write_missing parquet_target_def)

lemma default_path_dotted: "default_parquet_path ''data.v1/input'' = ''data.parquet''"
  by (simp add: default_parquet_path_def rsplit_dot_head_def)

text \<open>
  C6. The default Parquet path is the input path cut at its last dot, wherever that dot
  stands. For \<^verbatim>\<open>data.v1/input\<close>, a file without an extension in a directory whose
  name holds a dot, the Parquet file is written at \<^verbatim>\<open>data.parquet\<close> and not at
  \<^verbatim>\<open>data.v1/input.parquet\<close>.
\<close>

theorem default_parquet_path_dotted_directory:
  "default_parquet_path ''data.v1/input'' = ''data.parquet''
   \<and> files (fs (snd (read_csv_with_arrow sample_lib ''data.v1/input'' False True None
                       sample_world))) ''data.parquet'' = Some (ParquetData sample_table)
   \<and> files (fs (snd (read_csv_with_arrow sample_lib ''data.v1/input'' False True None
                       sample_world))) ''data.v1/input.parquet'' = None"
proof -
  have d: "dirname ''data.parquet'' = []"
    by (simp add: dirname_def Let_def)
  have wr: "write_table_exc sample_lib f t ''data.parquet'' = None" for f t
    by (simp add: sample_lib_def sample_write_exc_def d)
  show ?thesis
    by (simp add: default_path_dotted read_csv_with_arrow_def read_body_def sample_read_input
          convert_to_parquet_def parquet_target_def wr Let_def put_file_def print_line_def)
       (simp add: sample_world_def)
qed

subsection \<open>Writing a table and plotting a chart\<close>

lemma filter_normalize_fst: "fst (filter_normalize L table w) = write_normalize L table"
  by (cases table) (simp_all add: filter_normalize_def write_normalize_def)

text \<open>
  C1. \<open>write_table_to_csv\<close> does raise to its caller. Line 166 reads
  \<^verbatim>\<open>table.num_rows\<close> before the \<^verbatim>\<open>try\<close> block is entered, so for the mapping
  \<^verbatim>\<open>{"a": [1, 2], "b": [3, 4]}\<close> the call ends in \<^verbatim>\<open>AttributeError\<close>, whatever
  the libraries do: nothing is converted, nothing is written, no boolean is returned.
\<close>

theorem write_table_to_csv_raises_on_dict:
  "write_table_to_csv L sample_dict ''out.csv'' w = (Inl (no_attribute sample_dict ''num_rows''), w)"
  by (simp add: write_table_to_csv_def write_banner_def num_rows_text_def sample_dict_def)

text \<open>
  C7. For every value that is not a dict, \<open>plot_dict_and_save\<close> raises
  \<^verbatim>\<open>ValueError\<close> to its caller and leaves the world as it was: no directory is
  created, no file is written, no figure is opened, nothing is printed.
\<close>

theorem plot_rejects_non_dict:
  assumes "\<not> is_dict data"
  shows "plot_dict_and_save L data title xlabel ylabel save_path w
           = (Inl (ValueError ''input data must be of type dict''), w)"
  using assms by (cases data) (simp_all add: plot_dict_and_save_def)

text \<open>
  Witness for C7: a list of two numbers.
\<close>

theorem plot_rejects_non_dict_witness:
  "\<not> is_dict (PyList [PyInt 1, PyInt 2])
   \<and> plot_dict_and_save sample_lib (PyList [PyInt 1, PyInt 2]) ''Dict Plot'' ''Keys'' ''Values''
        (Some ''out/dir/chart.png'') sample_world
       = (Inl (ValueError ''input data must be of type dict''), sample_world)"
  using plot_rejects_non_dict [of "PyList [PyInt 1, PyInt 2]" sample_lib "''Dict Plot''" "''Keys''" "''Values''"
               "Some ''out/dir/chart.png''" sample_world]
  by simp

lemma ensure_dir_cases:
  obtains e where "ensure_dir L p w = (Inl e, w)"
  | w' where "ensure_dir L p w = (Inr (), w')" "open_figs w' = open_figs w"
  by (cases "ensure_dir L p w") (auto simp add: ensure_dir_def Let_def split: option.splits if_splits)

text \<open>
  C8 fails as stated. With the default \<^verbatim>\<open>save_path=None\<close> the call raises after
  \<^verbatim>\<open>plt.figure\<close>, and the figure is still open when the exception reaches the caller.
\<close>

theorem figure_left_open_counterexample:
  "open_figs (snd (plot_dict_and_save sample_lib (PyDict [(PyStr ''x'', PyInt 1), (PyStr ''y'', PyInt 2)])
                     ''Dict Plot'' ''Keys'' ''Values'' None sample_world))
     \<noteq> open_figs sample_world"
  by (simp add: plot_dict_and_save_def sample_lib_def Let_def)

text \<open>
  C8, amended. The figure is closed on normal completion and is never opened when the
  validation of \<open>data\<close> fails; on every exit by an exception raised after
  \<^verbatim>\<open>plt.figure\<close> one more figure is open than before the call.
\<close>

theorem figure_released_on_completion_only:
  "open_figs (snd (plot_dict_and_save L data title xlabel ylabel save_path w)) =
     (if is_dict data \<and> isl (fst (plot_dict_and_save L data title xlabel ylabel save_path w))
      then open_figs w + 1 else open_figs w)"
proof (cases data)
  case (PyDict kvs)
  show ?thesis
  proof (cases "plt_bar_exc L (map fst kvs) (map snd kvs)")
    case (Some e)
    then show ?thesis by (simp add: PyDict plot_dict_and_save_def Let_def)
  next
    case None
    note bar = this
    show ?thesis
    proof (cases save_path)
      case None
      then show ?thesis by (simp add: PyDict bar plot_dict_and_save_def Let_def)
    next
      case (Some p)
      show ?thesis
      proof (rule ensure_dir_cases [of L p "w\<lparr>open_figs := open_figs w + 1\<rparr>"])
        fix e assume "ensure_dir L p (w\<lparr>open_figs := open_figs w + 1\<rparr>) = (Inl e, w\<lparr>open_figs := open_figs w + 1\<rparr>)"
        then show ?thesis by (simp add: PyDict bar Some plot_dict_and_save_def Let_def)
      next
        fix w' assume "ensure_dir L p (w\<lparr>open_figs := open_figs w + 1\<rparr>) = (Inr (), w')"
          and "open_figs w' = open_figs (w\<lparr>open_figs := open_figs w + 1\<rparr>)"
        then show ?thesis
          by (simp add: PyDict bar Some plot_dict_and_save_def Let_def put_file_def
                open_figs_print_line split: option.splits)
      qed
    qed
  qed
qed (simp_all add: plot_dict_and_save_def)

text \<open>
  Witness for C8: a chart saved in the current directory; the figure is closed.
\<close>

theorem figure_released_on_completion_only_witness:
  "open_figs (snd (plot_dict_and_save sample_lib (PyDict [(PyStr ''x'', PyInt 1), (PyStr ''y'', PyInt 2)])
                     ''Dict Plot'' ''Keys'' ''Values'' (Some ''chart.png'') sample_world))
     = open_figs sample_world"
proof -
  have d: "dirname ''chart.png'' = []"
    by (simp add: dirname_def Let_def)
  have "fst (plot_dict_and_save sample_lib (PyDict [(PyStr ''x'', PyInt 1), (PyStr ''y'', PyInt 2)])
               ''Dict Plot'' ''Keys'' ''Values'' (Some ''chart.png'') sample_world) = Inr ()"
    by (simp add: plot_dict_and_save_def sample_lib_def ensure_dir_def d sample_write_exc_def
          Let_def)
  then show ?thesis
    using figure_released_on_completion_only
            [where L = sample_lib
               and data = "PyDict [(PyStr ''x'', PyInt 1), (PyStr ''y'', PyInt 2)]"
               and title = "''Dict Plot''" and xlabel = "''Keys''" and ylabel = "''Values''"
               and save_path = "Some ''chart.png''" and w = sample_world]
    by simp
qed

subsection \<open>Filtering a table\<close>

lemma sample_normalize_dict: "write_normalize sample_lib sample_dict = Inr (PyArrowTable sample_table)"
  by (simp add: write_normalize_def sample_dict_def table_of_dict_def table_of_frame_def
        sample_lib_def sample_frame_def homogeneous_def sample_table_def Let_def)






lemma filter_list_unchanged:
  "fst (filter_arrow_table_by_expr L (PyList rs) e w) = Inr (PyList rs)"
  by (simp add: filter_arrow_table_by_expr_def filter_normalize_def filter_query_def py_to_pandas_def)

text \<open>
  C3 fails as stated. A list of records is not converted: \<^verbatim>\<open>to_pandas\<close> is looked
  up on the list itself, the lookup raises, and the list comes back unfiltered, even for
  an expression the libraries accept.
\<close>

theorem filter_record_list_counterexample:
  "fst (filter_arrow_table_by_expr sample_lib sample_records ''a > 1'' sample_world) = Inr sample_records
   \<and> \<not> is_arrow_table sample_records"
  by (simp add: filter_list_unchanged sample_records_def is_arrow_table_def)

lemma filter_on_mask:
  assumes "write_normalize L table = Inr (PyArrowTable t)"
    and "to_pandas L t = Inr df"
    and "df_eval L df e = Inr (Mask m)"
    and "length m = index_len (dindex df)"
    and "from_pandas L (DataFrame (loc_index L (dindex df) m) (keep_mask m (dcols df))) = Inr t'"
  shows "fst (filter_arrow_table_by_expr L table e w) = Inr (PyArrowTable t')"
proof -
  obtain r w1 where n: "filter_normalize L table w = (r, w1)"
    by (cases "filter_normalize L table w")
  then have r: "r = Inr (PyArrowTable t)"
    using filter_normalize_fst [of L table w] assms(1) by simp
  have q: "filter_query L (PyArrowTable t) e = Inr (PyArrowTable t')"
    using assms(2-5)
    by (simp add: filter_query_def py_to_pandas_def df_query_def table_of_frame_def)
  show ?thesis
    unfolding filter_arrow_table_by_expr_def n r by (simp add: q)
qed

text \<open>
  C3, amended. Let the input be a pyarrow table, a dict or a pandas frame that the
  libraries convert to the table \<open>t\<close>, and let pandas evaluate the expression, on the
  frame of \<open>t\<close>, to a mask \<open>m\<close> with one truth value per row. When the conversions
  between tables and frames keep the columns, \<open>filter_arrow_table_by_expr\<close> returns a
  new table whose first columns are the columns of \<open>t\<close> cut down to exactly the rows at
  which the mask is true, in their order; columns for the index of the frame may follow
  them. A list of records is not converted: it is returned as it is, unfiltered.
\<close>

theorem filter_returns_matching_rows:
  assumes "write_normalize L table = Inr (PyArrowTable t)"
    and "to_pandas L t = Inr df"
    and "dcols df = tcols t"
    and "df_eval L df e = Inr (Mask m)"
    and "length m = index_len (dindex df)"
    and "from_pandas L (DataFrame (loc_index L (dindex df) m) (keep_mask m (dcols df))) = Inr t'"
    and "take (length (dcols df)) (tcols t') = keep_mask m (dcols df)"
  shows "fst (filter_arrow_table_by_expr L table e w) = Inr (PyArrowTable t')
         \<and> take (length (tcols t)) (tcols t') = keep_mask m (tcols t)
         \<and> fst (filter_arrow_table_by_expr L (PyList rs) e w) = Inr (PyList rs)"
proof -
  have "fst (filter_arrow_table_by_expr L table e w) = Inr (PyArrowTable t')"
    by (rule filter_on_mask [OF assms(1) assms(2) assms(4) assms(5) assms(6)])
  moreover have "take (length (tcols t)) (tcols t') = keep_mask m (tcols t)"
    using assms(3) assms(7) by simp
  ultimately show ?thesis
    by (simp add: filter_list_unchanged)
qed

lemma sample_to_pandas:
  "to_pandas sample_lib sample_table = Inr (DataFrame (RangeIndex 2) (tcols sample_table))"
  by (simp add: sample_lib_def sample_table_def num_rows_def)

lemma sample_eval_gt1:
  "df_eval sample_lib (DataFrame (RangeIndex 2) (tcols sample_table)) ''a > 1''
     = Inr (Mask [False, True])"
  by (simp add: sample_lib_def sample_eval_def sample_table_def)

lemma sample_keep_gt1:
  "keep_mask [False, True] (tcols sample_table) = [(''a'', [CInt 2]), (''b'', [CInt 4])]"
  by (simp add: keep_mask_def sample_table_def)

lemma sample_loc_gt1:
  "loc_index sample_lib (RangeIndex 2) [False, True] = LabelIndex [1]"
  by (simp add: sample_lib_def sample_loc_index_def numeral_2_eq_2)

lemma sample_from_pandas_gt1:
  "from_pandas sample_lib (DataFrame (LabelIndex [1]) [(''a'', [CInt 2]), (''b'', [CInt 4])])
     = Inr (Table [(''a'', [CInt 2]), (''b'', [CInt 4]), (''__index_level_0__'', [CInt 1])])"
  by (simp add: sample_lib_def)

text \<open>
  Witness for C3: the mapping of the specification and the expression \<^verbatim>\<open>a > 1\<close>. The
  table returned holds the second row of the mapping, and the label of that row in an
  index column.
\<close>

theorem filter_returns_matching_rows_witness:
  "write_normalize sample_lib sample_dict = Inr (PyArrowTable sample_table)
   \<and> df_eval sample_lib (DataFrame (RangeIndex 2) (tcols sample_table)) ''a > 1''
       = Inr (Mask [False, True])
   \<and> fst (filter_arrow_table_by_expr sample_lib sample_dict ''a > 1'' sample_world)
       = Inr (PyArrowTable
                (Table [(''a'', [CInt 2]), (''b'', [CInt 4]), (''__index_level_0__'', [CInt 1])]))
   \<and> keep_mask [False, True] (tcols sample_table) = [(''a'', [CInt 2]), (''b'', [CInt 4])]"
proof -
  have len: "length [False, True] = index_len (dindex (DataFrame (RangeIndex 2) (tcols sample_table)))"
    by simp
  have cols: "dcols (DataFrame (RangeIndex 2) (tcols sample_table)) = tcols sample_table"
    by simp
  have fp: "from_pandas sample_lib
              (DataFrame (loc_index sample_lib (dindex (DataFrame (RangeIndex 2) (tcols sample_table)))
                            [False, True])
                 (keep_mask [False, True] (dcols (DataFrame (RangeIndex 2) (tcols sample_table)))))
            = Inr (Table [(''a'', [CInt 2]), (''b'', [CInt 4]), (''__index_level_0__'', [CInt 1])])"
    by (simp add: sample_loc_gt1 sample_keep_gt1 sample_from_pandas_gt1)
  have kept: "take (length (dcols (DataFrame (RangeIndex 2) (tcols sample_table))))
                (tcols (Table [(''a'', [CInt 2]), (''b'', [CInt 4]), (''__index_level_0__'', [CInt 1])]))
              = keep_mask [False, True] (dcols (DataFrame (RangeIndex 2) (tcols sample_table)))"
    by (simp add: sample_keep_gt1) (simp add: sample_table_def)
  show ?thesis
    using filter_returns_matching_rows
            [OF sample_normalize_dict sample_to_pandas cols sample_eval_gt1 len fp kept,
             where w = sample_world]
    by (simp add: sample_normalize_dict sample_eval_gt1 sample_keep_gt1)
qed

end
